theory Spec2Isabelle
  imports Complex_Main "HOL-Library.Product_Lexorder" "HOL-Library.Sublist"
begin

section \<open>Data model\<close>

text \<open>
  The planner works on Python dictionaries. Each kind of dictionary is a record here; a
  key that some dictionaries of the kind lack is an \<open>option\<close> field. Python numbers
  (int and float) are exact rationals: rounding of floating point is not modelled.
  Exceptions are values of \<open>error\<close>, results are \<open>error + 'a\<close>.
\<close>

datatype error = IndexError | KeyError | ZeroDivisionError | UnboundLocalError | ValueError

record destination =
  dest_id :: int
  dest_name :: string
  dest_description :: string

record activity =
  act_destination_id :: int
  act_name :: string
  act_category :: string
  act_description :: string
  act_cost :: rat
  morning_suitable :: bool
  afternoon_suitable :: bool
  evening_suitable :: bool
  popularity :: rat

text \<open>
  An accommodation dictionary: rows of the catalog carry \<open>destination_id\<close> and no
  \<open>total_cost\<close>; the generic dictionary of \<open>recommend_accommodation\<close> carries
  \<open>total_cost\<close> and no \<open>destination_id\<close>.
\<close>

record accommodation =
  acc_destination_id :: "int option"
  acc_name :: string
  acc_type :: string
  cost_per_night :: rat
  rating :: rat
  amenities :: "string list"
  acc_total_cost :: "rat option"

record transport_mode =
  tm_mode :: string
  typical_cost_per_km :: rat
  speed_km_h :: rat

record catalog =
  destinations_df :: "destination list"
  activities_df :: "activity list"
  transportation_df :: "transport_mode list"
  accommodations_df :: "accommodation list"

text \<open>
  \<open>user_preferences\<close>: the keys \<open>transportation\<close> and \<open>accommodation\<close> are read
  with \<open>.get(key, "Any")\<close>, so they may be absent (\<open>None\<close>).
\<close>

record user_preferences =
  p_origin :: string
  p_destination :: string
  p_duration :: int
  p_budget :: rat
  p_transportation :: "string option"
  p_accommodation :: "string option"
  p_activities :: "string list"

record transport_choice =
  tc_mode :: string
  distance_km :: int
  tc_cost :: rat
  travel_time_hours :: rat
  tc_details :: string

text \<open>
  The \<open>constraints\<close> dictionary of \<open>recommend_activities\<close>; \<open>max_results\<close> is a
  count, 10 when the key is absent.
\<close>

record constraints =
  time_of_day :: "string option"
  max_cost :: "rat option"
  max_results :: "nat option"

record slot =
  slot_description :: string
  slot_cost :: rat

record daily_plan =
  title :: string
  morning :: slot
  afternoon :: slot
  evening :: slot
  total_cost :: rat

record budget_breakdown =
  bb_transportation :: rat
  bb_accommodation :: rat
  bb_activities :: rat
  bb_food :: rat
  bb_miscellaneous :: rat

record itinerary =
  it_destination :: destination
  it_transportation :: transport_choice
  it_accommodation :: accommodation
  it_daily_plan :: "daily_plan list"
  it_budget_breakdown :: budget_breakdown

section \<open>The random source\<close>

text \<open>
  The module \<open>random\<close> is a stream of draws, passed explicitly and returned
  advanced. A theorem for every \<open>rng\<close> holds for every outcome of the random choices.
\<close>

type_synonym rng = "nat list"

fun randbelow :: "nat \<Rightarrow> rng \<Rightarrow> nat \<times> rng" where
  "randbelow n [] = (0, [])"
| "randbelow n (r # rs) = (r mod n, rs)"

definition randint :: "int \<Rightarrow> int \<Rightarrow> rng \<Rightarrow> int \<times> rng" where
  "randint a b g = (case randbelow (nat (b - a + 1)) g of (k, g') \<Rightarrow> (a + int k, g'))"

text \<open>\<open>random.choice\<close>, called on non-empty sequences only.\<close>

definition choice :: "'a list \<Rightarrow> rng \<Rightarrow> 'a \<times> rng" where
  "choice xs g = (case randbelow (length xs) g of (k, g') \<Rightarrow> (xs ! k, g'))"

text \<open>\<open>random.random() < 0.7\<close>: one draw, true for seven outcomes in ten.\<close>

definition random_lt_07 :: "rng \<Rightarrow> bool \<times> rng" where
  "random_lt_07 g = (case randbelow 10 g of (k, g') \<Rightarrow> (k < 7, g'))"

section \<open>Python's list sort\<close>

text \<open>
  \<open>list.sort(key=f)\<close> is a stable ascending sort. With \<open>reverse=True\<close> CPython
  reverses the list, sorts it and reverses it again, which keeps entries of equal key in
  their original order. Tuples compare lexicographically.
\<close>

definition sort_reverse :: "('a \<Rightarrow> 'k::linorder) \<Rightarrow> 'a list \<Rightarrow> 'a list" where
  "sort_reverse f xs = rev (sort_key f (rev xs))"

section \<open>Catalog queries (data_manager.py)\<close>

text \<open>\<open>frame[mask].iloc[0]\<close>: the first selected row, IndexError when none is.\<close>

definition iloc0 :: "'a list \<Rightarrow> error + 'a" where
  "iloc0 rows = (case rows of [] \<Rightarrow> Inl IndexError | r # _ \<Rightarrow> Inr r)"

definition get_destination_list :: "catalog \<Rightarrow> string list" where
  "get_destination_list cat = map dest_name (destinations_df cat)"

definition get_destination_by_name :: "catalog \<Rightarrow> string \<Rightarrow> error + destination" where
  "get_destination_by_name cat name =
     iloc0 (filter (\<lambda>d. dest_name d = name) (destinations_df cat))"

definition get_destination_by_id :: "catalog \<Rightarrow> int \<Rightarrow> error + destination" where
  "get_destination_by_id cat destination_id =
     iloc0 (filter (\<lambda>d. dest_id d = destination_id) (destinations_df cat))"

definition get_activities_by_destination :: "catalog \<Rightarrow> int \<Rightarrow> activity list" where
  "get_activities_by_destination cat destination_id =
     filter (\<lambda>a. act_destination_id a = destination_id) (activities_df cat)"

definition get_accommodations_by_destination :: "catalog \<Rightarrow> int \<Rightarrow> accommodation list" where
  "get_accommodations_by_destination cat destination_id =
     filter (\<lambda>a. acc_destination_id a = Some destination_id) (accommodations_df cat)"

definition get_accommodations_by_destination_and_type ::
    "catalog \<Rightarrow> int \<Rightarrow> string \<Rightarrow> accommodation list" where
  "get_accommodations_by_destination_and_type cat destination_id accommodation_type =
     (if accommodation_type = ''Any'' then get_accommodations_by_destination cat destination_id
      else filter (\<lambda>a. acc_destination_id a = Some destination_id \<and> acc_type a = accommodation_type)
             (accommodations_df cat))"

text \<open>
  \<open>get_transportation_by_mode\<close>: for "Any" one row sampled from the table (ValueError
  on an empty table), otherwise the first row of that mode.
\<close>

definition get_transportation_by_mode ::
    "catalog \<Rightarrow> string \<Rightarrow> rng \<Rightarrow> error + (transport_mode \<times> rng)" where
  "get_transportation_by_mode cat mode g =
     (if mode = ''Any'' then
        (if transportation_df cat = [] then Inl ValueError
         else Inr (choice (transportation_df cat) g))
      else (case iloc0 (filter (\<lambda>t. tm_mode t = mode) (transportation_df cat)) of
              Inl e \<Rightarrow> Inl e
            | Inr t \<Rightarrow> Inr (t, g)))"

section \<open>Recommendations (recommendation_engine.py)\<close>

subsection \<open>recommend_transportation\<close>

text \<open>The tail shared by both branches: cost, travel time, the result dictionary.\<close>

definition transport_result ::
    "user_preferences \<Rightarrow> transport_mode \<Rightarrow> int \<Rightarrow> error + transport_choice" where
  "transport_result p transport d_km =
     (let cost = of_int d_km * typical_cost_per_km transport in
      if speed_km_h transport = 0 then Inl ZeroDivisionError
      else Inr \<lparr> tc_mode = tm_mode transport,
                 distance_km = d_km,
                 tc_cost = cost,
                 travel_time_hours = of_int d_km / speed_km_h transport,
                 tc_details = ''From '' @ p_origin p @ '' to '' @ p_destination p
                                @ '' via '' @ tm_mode transport \<rparr>)"

definition recommend_transportation ::
    "catalog \<Rightarrow> user_preferences \<Rightarrow> rng \<Rightarrow> error + (transport_choice \<times> rng)" where
  "recommend_transportation cat p g =
     (let preferred_mode = (case p_transportation p of None \<Rightarrow> ''Any'' | Some m \<Rightarrow> m) in
      if preferred_mode \<noteq> ''Any'' then
        (case get_transportation_by_mode cat preferred_mode g of
           Inl e \<Rightarrow> Inl e
         | Inr (transport, g1) \<Rightarrow>
             (case (if preferred_mode = ''Plane'' then randint 500 5000 g1
                    else if preferred_mode \<in> set [''Train'', ''Bus'', ''Car'']
                    then randint 50 800 g1
                    else randint 50 2000 g1) of
                (d_km, g2) \<Rightarrow>
                  (case transport_result p transport d_km of
                     Inl e \<Rightarrow> Inl e
                   | Inr r \<Rightarrow> Inr (r, g2))))
      else
        (case random_lt_07 g of
           (long, g1) \<Rightarrow>
             (case (if long then randint 1000 8000 g1 else randint 50 800 g1) of
                (d_km, g2) \<Rightarrow>
                  (case (if d_km > 1000 then (''Plane'', g2)
                         else if d_km > 300 then choice [''Plane'', ''Train'', ''Car''] g2
                         else choice [''Train'', ''Bus'', ''Car''] g2) of
                     (recommended_mode, g3) \<Rightarrow>
                       (case get_transportation_by_mode cat recommended_mode g3 of
                          Inl e \<Rightarrow> Inl e
                        | Inr (transport, g4) \<Rightarrow>
                            (case transport_result p transport d_km of
                               Inl e \<Rightarrow> Inl e
                             | Inr r \<Rightarrow> Inr (r, g4)))))))"

subsection \<open>recommend_accommodation\<close>

text \<open>The candidates: the rows of the preferred type, widened to all rows of the
  destination when there is none.\<close>

definition accommodation_candidates :: "catalog \<Rightarrow> user_preferences \<Rightarrow> int \<Rightarrow> accommodation list" where
  "accommodation_candidates cat p destination_id =
     (let preferred_type = (case p_accommodation p of None \<Rightarrow> ''Any'' | Some t \<Rightarrow> t);
          accommodations = get_accommodations_by_destination_and_type cat destination_id preferred_type
      in if accommodations = [] then get_accommodations_by_destination cat destination_id
         else accommodations)"

definition accommodation_budget :: "user_preferences \<Rightarrow> rat" where
  "accommodation_budget p = (p_budget p / of_int (p_duration p)) * (35 / 100)"

definition generic_accommodation :: "user_preferences \<Rightarrow> accommodation" where
  "generic_accommodation p =
     \<lparr> acc_destination_id = None,
       acc_name = ''Local Accommodation'',
       acc_type = (case p_accommodation p of None \<Rightarrow> ''Hotel''
                   | Some t \<Rightarrow> if t \<noteq> ''Any'' then t else ''Hotel''),
       cost_per_night = 100,
       rating = 4,
       amenities = [''WiFi'', ''Breakfast''],
       acc_total_cost = Some (100 * of_int (p_duration p)) \<rparr>"

definition recommend_accommodation ::
    "catalog \<Rightarrow> user_preferences \<Rightarrow> int \<Rightarrow> error + accommodation" where
  "recommend_accommodation cat p destination_id =
     (let accommodations = accommodation_candidates cat p destination_id in
      if accommodations = [] then Inr (generic_accommodation p)
      else if p_duration p = 0 then Inl ZeroDivisionError
      else
        (let affordable_accommodations =
               filter (\<lambda>a. cost_per_night a \<le> accommodation_budget p) accommodations;
             selected =
               (if affordable_accommodations = []
                then hd (sort_key cost_per_night accommodations)
                else hd (sort_reverse (\<lambda>x. (rating x, - cost_per_night x))
                           affordable_accommodations))
         in Inr (selected \<lparr> acc_total_cost :=
                    Some (cost_per_night selected * of_int (p_duration p)) \<rparr>)))"

subsection \<open>recommend_activities\<close>

definition filter_time_of_day :: "string option \<Rightarrow> activity list \<Rightarrow> activity list" where
  "filter_time_of_day tod acts =
     (case tod of
        None \<Rightarrow> acts
      | Some t \<Rightarrow>
          if t = [] then acts
          else if t = ''morning'' then filter morning_suitable acts
          else if t = ''afternoon'' then filter afternoon_suitable acts
          else if t = ''evening'' then filter evening_suitable acts
          else acts)"

definition recommend_activities ::
    "catalog \<Rightarrow> user_preferences \<Rightarrow> int \<Rightarrow> constraints \<Rightarrow> activity list" where
  "recommend_activities cat p destination_id c =
     (let all_activities = get_activities_by_destination cat destination_id in
      if all_activities = [] then []
      else
        (let preferred_categories = p_activities p;
             by_category = filter (\<lambda>a. act_category a \<in> set preferred_categories) all_activities;
             preferred_activities =
               (if preferred_categories \<noteq> [] \<and> by_category \<noteq> [] then by_category
                else all_activities);
             by_time = filter_time_of_day (time_of_day c) preferred_activities;
             by_cost = (case max_cost c of None \<Rightarrow> by_time
                        | Some m \<Rightarrow> filter (\<lambda>a. act_cost a \<le> m) by_time);
             ranked = sort_reverse (\<lambda>x. (popularity x, - act_cost x)) by_cost
         in take (case max_results c of None \<Rightarrow> 10 | Some n \<Rightarrow> n) ranked))"

subsection \<open>recommend_daily_plan\<close>

text \<open>\<open>str.lower\<close> on ASCII letters, \<open>sub in text\<close>, and \<open>str\<close> of an integer.\<close>

definition lower_char :: "char \<Rightarrow> char" where
  "lower_char c = (let n = (of_char c :: nat) in if 65 \<le> n \<and> n \<le> 90 then char_of (n + 32) else c)"

definition lower :: "string \<Rightarrow> string" where
  "lower s = map lower_char s"

fun str_contains :: "string \<Rightarrow> string \<Rightarrow> bool" where
  "str_contains sub [] = (sub = [])"
| "str_contains sub (c # cs) = (prefix sub (c # cs) \<or> str_contains sub cs)"

fun str_of_nat :: "nat \<Rightarrow> string" where
  "str_of_nat n =
     (if n < 10 then [char_of (48 + n)] else str_of_nat (n div 10) @ [char_of (48 + n mod 10)])"

definition str_of_int :: "int \<Rightarrow> string" where
  "str_of_int i = (if i < 0 then CHR ''-'' # str_of_nat (nat (- i)) else str_of_nat (nat i))"

text \<open>
  One period of the day. The local variable holding the chosen activity
  (\<open>morning_activity\<close>, \<open>afternoon_activity\<close>, \<open>evening_activity\<close>) is assigned only
  when the period's candidates are not empty: \<open>None\<close> is the unassigned variable.
\<close>

definition pick_activity :: "activity list \<Rightarrow> slot \<Rightarrow> rng \<Rightarrow> activity option \<times> slot \<times> rng" where
  "pick_activity candidates filler g =
     (if candidates \<noteq> [] then
        (case choice (take (min 3 (length candidates)) candidates) g of
           (a, g') \<Rightarrow>
             (Some a, \<lparr> slot_description = act_description a, slot_cost = act_cost a \<rparr>, g'))
      else (None, filler, g))"

text \<open>
  The title. On a day that is neither the first nor the last the three local variables
  are read; reading an unassigned one raises UnboundLocalError.
\<close>

definition keyword_if :: "string \<Rightarrow> string \<Rightarrow> string \<Rightarrow> activity \<Rightarrow> string list" where
  "keyword_if w1 w2 keyword a =
     (if str_contains w1 (lower (act_description a)) \<or> str_contains w2 (lower (act_description a))
      then [keyword] else [])"

definition day_title ::
    "destination \<Rightarrow> user_preferences \<Rightarrow> int \<Rightarrow> activity option \<Rightarrow> activity option
       \<Rightarrow> activity option \<Rightarrow> rng \<Rightarrow> error + (string \<times> rng)" where
  "day_title destination p day_number morning_activity afternoon_activity evening_activity g =
     (if day_number = 1 then Inr (''Welcome to '' @ dest_name destination, g)
      else if day_number = p_duration p then Inr (''Final Day in '' @ dest_name destination, g)
      else
        (case morning_activity of
           None \<Rightarrow> Inl UnboundLocalError
         | Some m \<Rightarrow>
        (case afternoon_activity of
           None \<Rightarrow> Inl UnboundLocalError
         | Some a \<Rightarrow>
        (case evening_activity of
           None \<Rightarrow> Inl UnboundLocalError
         | Some e \<Rightarrow>
             (let activities_keywords =
                    keyword_if ''cultural'' ''museum'' ''Cultural'' m
                    @ keyword_if ''outdoor'' ''nature'' ''Outdoor'' a
                    @ keyword_if ''food'' ''cuisine'' ''Culinary'' e
              in if activities_keywords \<noteq> [] then
                   (case choice activities_keywords g of
                      (keyword, g') \<Rightarrow>
                        Inr (''Day of '' @ keyword @ '' Exploration in '' @ dest_name destination, g'))
                 else Inr (''Exploring '' @ dest_name destination @ '' - Day ''
                             @ str_of_int day_number, g))))))"

definition period_constraints :: "string \<Rightarrow> rat \<Rightarrow> constraints" where
  "period_constraints period cap =
     \<lparr> time_of_day = Some period, max_cost = Some cap, max_results = Some 3 \<rparr>"

definition recommend_daily_plan ::
    "catalog \<Rightarrow> user_preferences \<Rightarrow> int \<Rightarrow> int \<Rightarrow> rat \<Rightarrow> rng \<Rightarrow> error + (daily_plan \<times> rng)" where
  "recommend_daily_plan cat p destination_id day_number daily_budget g =
     (let morning_budget = daily_budget * (3 / 10);
          afternoon_budget = daily_budget * (4 / 10);
          evening_budget = daily_budget * (3 / 10)
      in
      (case get_destination_by_id cat destination_id of
         Inl e \<Rightarrow> Inl e
       | Inr destination \<Rightarrow>
      (let morning_activities =
             recommend_activities cat p destination_id (period_constraints ''morning'' morning_budget);
           afternoon_activities =
             recommend_activities cat p destination_id (period_constraints ''afternoon'' afternoon_budget);
           evening_activities =
             recommend_activities cat p destination_id (period_constraints ''evening'' evening_budget)
       in
       (case pick_activity morning_activities
               \<lparr> slot_description = ''Explore the area near your accommodation in ''
                                       @ dest_name destination @ ''.'',
                 slot_cost = 0 \<rparr> g of
          (morning_activity, morning_plan, g1) \<Rightarrow>
       (case pick_activity afternoon_activities
               \<lparr> slot_description = ''Enjoy local sights and culture in ''
                                       @ dest_name destination @ ''.'',
                 slot_cost = morning_budget / 2 \<rparr> g1 of
          (afternoon_activity, afternoon_plan, g2) \<Rightarrow>
       (case pick_activity evening_activities
               \<lparr> slot_description = ''Dine at a local restaurant and experience ''
                                       @ dest_name destination @ [CHR 0x27] @ ''s nightlife.'',
                 slot_cost = evening_budget / 2 \<rparr> g2 of
          (evening_activity, evening_plan, g3) \<Rightarrow>
       (let total = slot_cost morning_plan + slot_cost afternoon_plan + slot_cost evening_plan in
        (case day_title destination p day_number
                morning_activity afternoon_activity evening_activity g3 of
           Inl e \<Rightarrow> Inl e
         | Inr (t, g4) \<Rightarrow>
             Inr (\<lparr> title = t, morning = morning_plan, afternoon = afternoon_plan,
                    evening = evening_plan, total_cost = total \<rparr>, g4)))))))))"

section \<open>Itinerary assembly (itinerary_generator.py)\<close>

text \<open>The loop \<open>for day in range(1, duration + 1)\<close>: the first exception ends it.\<close>

fun daily_plans ::
    "catalog \<Rightarrow> user_preferences \<Rightarrow> int \<Rightarrow> rat \<Rightarrow> int list \<Rightarrow> rng
       \<Rightarrow> error + (daily_plan list \<times> rng)" where
  "daily_plans cat p destination_id daily_activity_budget [] g = Inr ([], g)"
| "daily_plans cat p destination_id daily_activity_budget (day # days) g =
     (case recommend_daily_plan cat p destination_id day daily_activity_budget g of
        Inl e \<Rightarrow> Inl e
      | Inr (plan, g') \<Rightarrow>
          (case daily_plans cat p destination_id daily_activity_budget days g' of
             Inl e \<Rightarrow> Inl e
           | Inr (plans, g'') \<Rightarrow> Inr (plan # plans, g'')))"

text \<open>
  \<open>generate_itinerary\<close>. The overview string is built last, from records that have all
  the keys it reads; it is informational and is left out of the itinerary record.
\<close>

definition generate_itinerary :: "catalog \<Rightarrow> user_preferences \<Rightarrow> rng \<Rightarrow> error + itinerary" where
  "generate_itinerary cat p g =
     (case get_destination_by_name cat (p_destination p) of
        Inl e \<Rightarrow> Inl e
      | Inr destination \<Rightarrow>
     (case recommend_transportation cat p g of
        Inl e \<Rightarrow> Inl e
      | Inr (transportation, g1) \<Rightarrow>
     (case recommend_accommodation cat p (dest_id destination) of
        Inl e \<Rightarrow> Inl e
      | Inr accommodation \<Rightarrow>
     (case acc_total_cost accommodation of
        None \<Rightarrow> Inl KeyError
      | Some accommodation_cost \<Rightarrow>
     (let transportation_cost = tc_cost transportation;
          remaining = p_budget p - transportation_cost - accommodation_cost;
          remaining_budget = (if remaining < 0 then p_budget p * (2 / 10) else remaining)
      in
      if p_duration p = 0 then Inl ZeroDivisionError
      else
        (let daily_activity_budget = remaining_budget / of_int (p_duration p) in
         (case daily_plans cat p (dest_id destination) daily_activity_budget
                 [1..p_duration p] g1 of
            Inl e \<Rightarrow> Inl e
          | Inr (plans, g2) \<Rightarrow>
              Inr \<lparr> it_destination = destination,
                    it_transportation = transportation,
                    it_accommodation = accommodation,
                    it_daily_plan = plans,
                    it_budget_breakdown =
                      \<lparr> bb_transportation = transportation_cost,
                        bb_accommodation = accommodation_cost,
                        bb_activities = sum_list (map total_cost plans),
                        bb_food = remaining_budget * (4 / 10),
                        bb_miscellaneous = remaining_budget * (1 / 10) \<rparr> \<rparr>)))))))"

section \<open>Dictionaries as objects\<close>

text \<open>
  \<open>recommend_accommodation\<close> sorts a list in place and assigns a key of a dictionary.
  To see what these writes reach, dictionaries are objects in a store, addressed by their
  position. The frames of the catalog hold column values; \<open>to_dict(orient='records')\<close>
  builds one new dictionary for each selected row.
\<close>

type_synonym addr = nat

record py_state =
  st_catalog :: catalog
  st_heap :: "accommodation list"

definition to_dict_records :: "accommodation list \<Rightarrow> py_state \<Rightarrow> addr list \<times> py_state" where
  "to_dict_records rows s =
     ([length (st_heap s) ..< length (st_heap s) + length rows],
      s \<lparr> st_heap := st_heap s @ rows \<rparr>)"

definition new_dict :: "accommodation \<Rightarrow> py_state \<Rightarrow> addr \<times> py_state" where
  "new_dict d s = (length (st_heap s), s \<lparr> st_heap := st_heap s @ [d] \<rparr>)"

definition set_total_cost :: "addr \<Rightarrow> rat \<Rightarrow> py_state \<Rightarrow> py_state" where
  "set_total_cost a v s =
     s \<lparr> st_heap := (st_heap s) [a := (st_heap s ! a) \<lparr> acc_total_cost := Some v \<rparr>] \<rparr>"

definition recommend_accommodation_obj ::
    "user_preferences \<Rightarrow> int \<Rightarrow> py_state \<Rightarrow> (error + addr) \<times> py_state" where
  "recommend_accommodation_obj p destination_id s =
     (let preferred_type = (case p_accommodation p of None \<Rightarrow> ''Any'' | Some t \<Rightarrow> t) in
      case to_dict_records
             (get_accommodations_by_destination_and_type (st_catalog s) destination_id preferred_type) s of
        (typed, s1) \<Rightarrow>
      case (if typed = []
            then to_dict_records (get_accommodations_by_destination (st_catalog s1) destination_id) s1
            else (typed, s1)) of
        (accommodations, s2) \<Rightarrow>
      if accommodations = [] then
        (case new_dict (generic_accommodation p) s2 of (a, s3) \<Rightarrow> (Inr a, s3))
      else if p_duration p = 0 then (Inl ZeroDivisionError, s2)
      else
        (let obj = (\<lambda>a. st_heap s2 ! a);
             affordable_accommodations =
               filter (\<lambda>a. cost_per_night (obj a) \<le> accommodation_budget p) accommodations;
             selected =
               (if affordable_accommodations = []
                then hd (sort_key (\<lambda>a. cost_per_night (obj a)) accommodations)
                else hd (sort_reverse (\<lambda>a. (rating (obj a), - cost_per_night (obj a)))
                           affordable_accommodations));
             total = cost_per_night (obj selected) * of_int (p_duration p)
         in (Inr selected, set_total_cost selected total s2)))"

section \<open>A catalog instance\<close>

text \<open>
  The transportation table of \<open>_create_transportation_data\<close>, and the rows that
  \<open>DataManager\<close> builds for Paris (destination 1, cost level 3): the generated rows
  with one admissible outcome of their random costs, ratings and popularity, followed by
  the three rows of \<open>_add_destination_specific_activities\<close>.
\<close>

definition transportation_data :: "transport_mode list" where
  "transportation_data =
     [\<lparr> tm_mode = ''Plane'', typical_cost_per_km = 15 / 100, speed_km_h = 900 \<rparr>,
      \<lparr> tm_mode = ''Train'', typical_cost_per_km = 10 / 100, speed_km_h = 200 \<rparr>,
      \<lparr> tm_mode = ''Bus'', typical_cost_per_km = 5 / 100, speed_km_h = 80 \<rparr>,
      \<lparr> tm_mode = ''Car'', typical_cost_per_km = 20 / 100, speed_km_h = 100 \<rparr>,
      \<lparr> tm_mode = ''Ferry'', typical_cost_per_km = 8 / 100, speed_km_h = 40 \<rparr>]"

definition paris :: destination where
  "paris = \<lparr> dest_id = 1, dest_name = ''Paris, France'',
             dest_description =
               ''The City of Light, known for its art, fashion, gastronomy, and culture.'' \<rparr>"

definition paris_activity ::
    "string \<Rightarrow> string \<Rightarrow> string \<Rightarrow> rat \<Rightarrow> bool \<Rightarrow> bool \<Rightarrow> bool \<Rightarrow> rat \<Rightarrow> activity" where
  "paris_activity name category description cost m a e pop =
     \<lparr> act_destination_id = 1, act_name = name, act_category = category,
       act_description = description, act_cost = cost, morning_suitable = m,
       afternoon_suitable = a, evening_suitable = e, popularity = pop \<rparr>"

definition cultural_activity :: "rat \<Rightarrow> rat \<Rightarrow> activity" where
  "cultural_activity cost pop =
     paris_activity ''Museum/Cultural Site Visit in Paris, France'' ''Cultural & Historical''
       ''Visit a prominent museum or cultural landmark in Paris, France.''
       cost True True False pop"

definition outdoor_activity :: "rat \<Rightarrow> rat \<Rightarrow> activity" where
  "outdoor_activity cost pop =
     paris_activity ''Outdoor Adventure in Paris, France'' ''Outdoor & Adventure''
       ''Enjoy the natural surroundings in Paris, France with hiking, walking tours, or outdoor sports.''
       cost True True False pop"

definition food_activity :: "rat \<Rightarrow> rat \<Rightarrow> activity" where
  "food_activity cost pop =
     paris_activity ''Culinary Experience in Paris, France'' ''Food & Culinary''
       ''Taste the local cuisine or join a food tour in Paris, France.''
       cost False True True pop"

definition relaxation_activity :: "rat \<Rightarrow> rat \<Rightarrow> activity" where
  "relaxation_activity cost pop =
     paris_activity ''Relaxation Activity in Paris, France'' ''Relaxation & Wellness''
       ''Unwind with spa treatments, beach time, or wellness activities in Paris, France.''
       cost True True True pop"

definition shopping_activity :: "rat \<Rightarrow> rat \<Rightarrow> activity" where
  "shopping_activity cost pop =
     paris_activity ''Shopping Experience in Paris, France'' ''Shopping''
       ''Explore local markets, boutiques, or shopping districts in Paris, France.''
       cost False True True pop"

definition entertainment_activity :: "rat \<Rightarrow> rat \<Rightarrow> activity" where
  "entertainment_activity cost pop =
     paris_activity ''Entertainment in Paris, France'' ''Entertainment''
       ''Enjoy shows, performances, or nightlife in Paris, France.''
       cost False False True pop"

definition sightseeing_activity :: "rat \<Rightarrow> bool \<Rightarrow> rat \<Rightarrow> activity" where
  "sightseeing_activity cost e pop =
     paris_activity ''Sightseeing in Paris, France'' ''Sightseeing''
       ''Visit popular landmarks and attractions in Paris, France.''
       cost True True e pop"

definition paris_activities :: "activity list" where
  "paris_activities =
     [cultural_activity 60 (90 / 100), cultural_activity 30 (80 / 100),
      cultural_activity 105 (75 / 100),
      outdoor_activity 45 (70 / 100), outdoor_activity 90 (85 / 100),
      outdoor_activity 30 (60 / 100),
      food_activity 60 (90 / 100), food_activity 45 (85 / 100),
      relaxation_activity 60 (80 / 100), relaxation_activity 90 (70 / 100),
      shopping_activity 30 (70 / 100),
      entertainment_activity 45 (80 / 100), entertainment_activity 75 (75 / 100),
      sightseeing_activity 15 True (90 / 100), sightseeing_activity 30 False (85 / 100),
      sightseeing_activity 45 True (80 / 100),
      paris_activity ''Eiffel Tower Visit'' ''Sightseeing''
        ''Visit the iconic symbol of Paris with options to go to the top for panoramic views.''
        25 True True True (95 / 100),
      paris_activity ''Louvre Museum Tour'' ''Cultural & Historical''
        (''Explore one of the world'' @ [CHR 0x27]
           @ ''s largest art museums, home to the Mona Lisa.'')
        15 True True False (90 / 100),
      paris_activity ''Seine River Cruise'' ''Sightseeing''
        ''See Paris from the water on a scenic boat tour along the Seine River.''
        15 True True True (85 / 100)]"

definition paris_accommodation :: "string \<Rightarrow> string \<Rightarrow> rat \<Rightarrow> rat \<Rightarrow> string list \<Rightarrow> accommodation" where
  "paris_accommodation name type cost rate amen =
     \<lparr> acc_destination_id = Some 1, acc_name = name, acc_type = type, cost_per_night = cost,
       rating = rate, amenities = amen, acc_total_cost = None \<rparr>"

definition paris_accommodations :: "accommodation list" where
  "paris_accommodations =
     [paris_accommodation ''Budget Hotel in Paris, France'' ''Hotel'' 90 (35 / 10)
        [''WiFi'', ''Air Conditioning''],
      paris_accommodation ''Hostel in Paris, France'' ''Hostel'' 60 (32 / 10)
        [''WiFi'', ''Shared Kitchen'', ''Lounge''],
      paris_accommodation ''Mid-range Hotel in Paris, France'' ''Hotel'' 180 4
        [''WiFi'', ''Air Conditioning'', ''Restaurant'', ''Room Service''],
      paris_accommodation ''Airbnb Apartment in Paris, France'' ''Airbnb'' 150 (45 / 10)
        [''WiFi'', ''Kitchen'', ''Washer'', ''Air Conditioning''],
      paris_accommodation ''Luxury Hotel in Paris, France'' ''Hotel'' 450 (46 / 10)
        [''WiFi'', ''Air Conditioning'', ''Pool'', ''Spa'', ''Gym'', ''Restaurant'', ''Room Service''],
      paris_accommodation ''Resort in Paris, France'' ''Resort'' 600 (48 / 10)
        [''WiFi'', ''Air Conditioning'', ''Pool'', ''Spa'', ''Gym'', ''Multiple Restaurants'',
         ''Private Beach/Garden'']]"

definition paris_catalog :: catalog where
  "paris_catalog =
     \<lparr> destinations_df = [paris], activities_df = paris_activities,
       transportation_df = transportation_data, accommodations_df = paris_accommodations \<rparr>"

text \<open>The scenario of the specification, and the same request with one interest only.\<close>

definition scenario_preferences :: user_preferences where
  "scenario_preferences =
     \<lparr> p_origin = ''New York'', p_destination = ''Paris, France'', p_duration = 7,
       p_budget = 2000, p_transportation = Some ''Plane'', p_accommodation = Some ''Hotel'',
       p_activities = [''Cultural & Historical'', ''Food & Culinary''] \<rparr>"

definition food_preferences :: user_preferences where
  "food_preferences = scenario_preferences \<lparr> p_activities := [''Food & Culinary''] \<rparr>"

text \<open>A request with no day, and a request for a mode that the table does not have.\<close>

definition zero_duration_preferences :: user_preferences where
  "zero_duration_preferences = scenario_preferences \<lparr> p_duration := 0 \<rparr>"

definition helicopter_preferences :: user_preferences where
  "helicopter_preferences = scenario_preferences \<lparr> p_transportation := Some ''Helicopter'' \<rparr>"

text \<open>
  The store at the start: the catalog, and one dictionary handed out by an earlier call.
\<close>

definition initial_state :: py_state where
  "initial_state =
     \<lparr> st_catalog = paris_catalog,
       st_heap = [paris_accommodation ''Hostel in Paris, France'' ''Hostel'' 60 (32 / 10)
                    [''WiFi'', ''Shared Kitchen'', ''Lounge'']
                    \<lparr> acc_total_cost := Some 420 \<rparr>] \<rparr>"

section \<open>What a transportation result holds\<close>

text \<open>
  The result names a mode of the table, its cost is the distance times that mode's cost
  per kilometre, its travel time the distance divided by that mode's speed, and its
  details string is \<open>From origin to destination via mode\<close>.
\<close>

definition complete_choice :: "catalog \<Rightarrow> user_preferences \<Rightarrow> transport_choice \<Rightarrow> bool" where
  "complete_choice cat p r \<longleftrightarrow>
     (\<exists>t \<in> set (transportation_df cat).
        tc_mode r = tm_mode t
        \<and> tc_cost r = of_int (distance_km r) * typical_cost_per_km t
        \<and> travel_time_hours r = of_int (distance_km r) / speed_km_h t
        \<and> tc_details r = ''From '' @ p_origin p @ '' to '' @ p_destination p @ '' via '' @ tm_mode t)"

section \<open>Properties of the sort\<close>

lemma set_sort_reverse: "set (sort_reverse f xs) = set xs"
  by (simp add: sort_reverse_def)

lemma length_sort_reverse: "length (sort_reverse f xs) = length xs"
  by (simp add: sort_reverse_def)

lemma sort_reverse_stable:
  "filter (\<lambda>y. f y = k) (sort_reverse f xs) = filter (\<lambda>y. f y = k) xs"
  by (simp add: sort_reverse_def rev_filter [symmetric] sort_key_stable)

lemma sorted_wrt_sort_reverse: "sorted_wrt (\<lambda>a b. f b \<le> f a) (sort_reverse f xs)"
proof -
  have "sorted (map f (sort_key f (rev xs)))" by simp
  then have "sorted_wrt (\<lambda>a b. f a \<le> f b) (sort_key f (rev xs))"
    by (simp add: sorted_map)
  then show ?thesis
    unfolding sort_reverse_def by (simp add: sorted_wrt_rev)
qed

lemma ranked_order:
  "sorted_wrt (\<lambda>a b. popularity b < popularity a \<or> (popularity a = popularity b \<and> act_cost a \<le> act_cost b))
     (sort_reverse (\<lambda>x. (popularity x, - act_cost x)) xs)"
  by (rule sorted_wrt_mono_rel [OF _ sorted_wrt_sort_reverse]) (auto simp: less_eq_prod_def)

lemma filter_time_of_day_filter: "\<exists>P. filter_time_of_day tod acts = filter P acts"
  unfolding filter_time_of_day_def
  apply (cases tod)
   apply (auto intro: exI [of _ "\<lambda>_. True"])
  done

section \<open>recommend_activities: ranking and truncation\<close>

text \<open>
  Whatever the constraints select, the result is a truncation of the ranked list of some
  selection of the catalog's activities.
\<close>

lemma recommend_activities_form:
  "\<exists>P. recommend_activities cat p d c =
     take (case max_results c of None \<Rightarrow> 10 | Some n \<Rightarrow> n)
       (sort_reverse (\<lambda>x. (popularity x, - act_cost x)) (filter P (activities_df cat)))"
proof (cases "get_activities_by_destination cat d = []")
  case True
  then have "recommend_activities cat p d c = []"
    by (simp add: recommend_activities_def)
  then show ?thesis
    by (intro exI [of _ "\<lambda>_. False"]) (simp add: sort_reverse_def)
next
  case False
  define pref where "pref =
    (if p_activities p \<noteq> [] \<and> filter (\<lambda>a. act_category a \<in> set (p_activities p)) (get_activities_by_destination cat d) \<noteq> []
     then filter (\<lambda>a. act_category a \<in> set (p_activities p)) (get_activities_by_destination cat d)
     else get_activities_by_destination cat d)"
  have "\<exists>P1. pref = filter P1 (activities_df cat)"
    unfolding pref_def get_activities_by_destination_def
    by (metis filter_filter)
  then obtain P1 where P1: "pref = filter P1 (activities_df cat)" ..
  obtain P2 where P2: "filter_time_of_day (time_of_day c) pref = filter P2 pref"
    using filter_time_of_day_filter by blast
  define by_time where "by_time = filter_time_of_day (time_of_day c) pref"
  have bt: "by_time = filter (\<lambda>x. P1 x \<and> P2 x) (activities_df cat)"
    unfolding by_time_def P2 by (simp add: P1 conj_commute)
  have "\<exists>P3. (case max_cost c of None \<Rightarrow> by_time
            | Some m \<Rightarrow> filter (\<lambda>a. act_cost a \<le> m) by_time)
          = filter P3 (activities_df cat)"
  proof (cases "max_cost c")
    case None
    then show ?thesis using bt by auto
  next
    case (Some m)
    then show ?thesis unfolding bt by auto
  qed
  then obtain P3 where P3: "(case max_cost c of None \<Rightarrow> filter_time_of_day (time_of_day c) pref
            | Some m \<Rightarrow> filter (\<lambda>a. act_cost a \<le> m) (filter_time_of_day (time_of_day c) pref))
          = filter P3 (activities_df cat)" unfolding by_time_def ..
  have "recommend_activities cat p d c =
     take (case max_results c of None \<Rightarrow> 10 | Some n \<Rightarrow> n)
       (sort_reverse (\<lambda>x. (popularity x, - act_cost x)) (filter P3 (activities_df cat)))"
    using False unfolding recommend_activities_def Let_def P3 [symmetric] pref_def by simp
  then show ?thesis by blast
qed

text \<open>
  Claim C8. With \<open>max_results = N\<close>, \<open>recommend_activities\<close> returns at most \<open>N\<close>
  entries; they are ordered by popularity descending, then by cost ascending; entries
  of equal popularity and cost follow each other in the order of the catalog.
\<close>

theorem recommend_activities_ranked_truncated:
  "length (recommend_activities cat p d (c\<lparr>max_results := Some N\<rparr>)) \<le> N
   \<and> sorted_wrt (\<lambda>a b. popularity b < popularity a
                      \<or> (popularity a = popularity b \<and> act_cost a \<le> act_cost b))
        (recommend_activities cat p d (c\<lparr>max_results := Some N\<rparr>))
   \<and> subseq (filter (\<lambda>a. popularity a = pop \<and> act_cost a = cst)
                (recommend_activities cat p d (c\<lparr>max_results := Some N\<rparr>)))
        (activities_df cat)"
proof -
  let ?key = "\<lambda>x. (popularity x, - act_cost x)"
  let ?K = "\<lambda>a. popularity a = pop \<and> act_cost a = cst"
  obtain P where form: "recommend_activities cat p d (c\<lparr>max_results := Some N\<rparr>)
      = take N (sort_reverse ?key (filter P (activities_df cat)))"
    using recommend_activities_form [of cat p d "c\<lparr>max_results := Some N\<rparr>"] by auto
  have len: "length (take N (sort_reverse ?key (filter P (activities_df cat)))) \<le> N"
    by simp
  have ord: "sorted_wrt (\<lambda>a b. popularity b < popularity a
                      \<or> (popularity a = popularity b \<and> act_cost a \<le> act_cost b))
        (take N (sort_reverse ?key (filter P (activities_df cat))))"
    by (rule sorted_wrt_take [OF ranked_order])
  have K: "?K = (\<lambda>a. ?key a = (pop, - cst))" by auto
  have "subseq (filter ?K (take N (sort_reverse ?key (filter P (activities_df cat)))))
           (filter ?K (sort_reverse ?key (filter P (activities_df cat))))"
    by (intro subseq_filter prefix_imp_subseq take_is_prefix)
  also have "filter ?K (sort_reverse ?key (filter P (activities_df cat)))
      = filter ?K (filter P (activities_df cat))"
    unfolding K by (rule sort_reverse_stable)
  finally have ties: "subseq (filter ?K (take N (sort_reverse ?key (filter P (activities_df cat)))))
      (activities_df cat)"
    by (rule subseq_order.trans) simp
  show ?thesis unfolding form using len ord ties by blast
qed

section \<open>The random source and the lookups\<close>

lemma randbelow_less: "0 < n \<Longrightarrow> fst (randbelow n g) < n"
  by (cases g) simp_all

lemma choice_in_set: "xs \<noteq> [] \<Longrightarrow> fst (choice xs g) \<in> set xs"
  using randbelow_less [of "length xs" g]
  by (auto simp: choice_def split: prod.splits)

lemma get_destination_by_name_absent:
  "name \<notin> set (get_destination_list cat) \<Longrightarrow> get_destination_by_name cat name = Inl IndexError"
proof -
  assume "name \<notin> set (get_destination_list cat)"
  then have "filter (\<lambda>d. dest_name d = name) (destinations_df cat) = []"
    by (auto simp: get_destination_list_def filter_empty_conv)
  then show ?thesis by (simp add: get_destination_by_name_def iloc0_def)
qed

section \<open>generate_itinerary: an unknown destination\<close>

text \<open>
  Claim C4. When the destination name of the preferences is not a name of the catalog,
  the lookup \<open>get_destination_by_name\<close> fails with the IndexError of \<open>.iloc[0]\<close>
  on an empty selection (the NotFound of the specification) and \<open>generate_itinerary\<close>
  ends with that error: no other destination is taken and no itinerary is returned.
\<close>

theorem generate_itinerary_unknown_destination:
  "p_destination p \<notin> set (get_destination_list cat) \<Longrightarrow>
     get_destination_by_name cat (p_destination p) = Inl IndexError
     \<and> generate_itinerary cat p g = Inl IndexError"
  by (simp add: get_destination_by_name_absent generate_itinerary_def)

theorem generate_itinerary_unknown_destination_witness:
  "''Atlantis'' \<notin> set (get_destination_list paris_catalog)
   \<and> generate_itinerary paris_catalog (scenario_preferences \<lparr> p_destination := ''Atlantis'' \<rparr>) []
       = Inl IndexError"
proof -
  have h: "p_destination (scenario_preferences \<lparr> p_destination := ''Atlantis'' \<rparr>)
             \<notin> set (get_destination_list paris_catalog)"
    by (simp add: get_destination_list_def paris_catalog_def paris_def)
  show ?thesis
    using h generate_itinerary_unknown_destination [OF h, of "[]"] by simp
qed

section \<open>generate_itinerary: the activities entry of the budget\<close>

text \<open>
  Claim C1. In every itinerary that \<open>generate_itinerary\<close> returns, the
  \<open>activities\<close> entry of the budget breakdown is exactly the sum of \<open>total_cost\<close>
  over the daily plans of that itinerary.
\<close>

theorem generate_itinerary_activities_cost:
  "generate_itinerary cat p g = Inr it \<Longrightarrow>
     bb_activities (it_budget_breakdown it) = sum_list (map total_cost (it_daily_plan it))"
  by (auto simp: generate_itinerary_def Let_def split: sum.splits option.splits if_splits prod.splits)

theorem generate_itinerary_activities_cost_witness:
  "\<not> isl (generate_itinerary paris_catalog scenario_preferences [])
   \<and> bb_activities (it_budget_breakdown
         (projr (generate_itinerary paris_catalog scenario_preferences [])))
       = sum_list (map total_cost (it_daily_plan
           (projr (generate_itinerary paris_catalog scenario_preferences []))))"
proof -
  have r: "\<not> isl (generate_itinerary paris_catalog scenario_preferences [])"
    by code_simp
  then obtain it where it: "generate_itinerary paris_catalog scenario_preferences [] = Inr it"
    by (cases "generate_itinerary paris_catalog scenario_preferences []") auto
  show ?thesis
    using r generate_itinerary_activities_cost [OF it] by (simp add: it)
qed

section \<open>recommend_transportation\<close>

lemma get_transportation_by_mode_error:
  "mode \<noteq> ''Any'' \<Longrightarrow> get_transportation_by_mode cat mode g = Inl e \<Longrightarrow> e = IndexError"
  by (auto simp: get_transportation_by_mode_def iloc0_def split: list.splits)

lemma transport_result_error: "transport_result p t d = Inl e \<Longrightarrow> e = ZeroDivisionError"
  by (auto simp: transport_result_def Let_def split: if_splits)

lemma sampled_mode_not_Any:
  "(if (d::int) > 1000 then (''Plane'', g2)
    else if d > 300 then choice [''Plane'', ''Train'', ''Car''] g2
    else choice [''Train'', ''Bus'', ''Car''] g2) = (m, g3) \<Longrightarrow> m \<in> {''Plane'', ''Train'', ''Bus'', ''Car''}"
  using choice_in_set [of "[''Plane'', ''Train'', ''Car'']" g2]
        choice_in_set [of "[''Train'', ''Bus'', ''Car'']" g2]
  by (auto split: if_splits)

lemma recommend_transportation_error:
  assumes "recommend_transportation cat p g = Inl e"
  shows "e = IndexError \<or> e = ZeroDivisionError"
proof -
  define pm where "pm = (case p_transportation p of None \<Rightarrow> ''Any'' | Some m \<Rightarrow> m)"
  show ?thesis
  proof (cases "pm = ''Any''")
    case False
    with assms show ?thesis
      unfolding recommend_transportation_def pm_def [symmetric] Let_def
      by (auto split: sum.splits prod.splits if_splits
               dest: get_transportation_by_mode_error transport_result_error)
  next
    case True
    obtain long g1 where r1: "random_lt_07 g = (long, g1)" by (cases "random_lt_07 g")
    obtain d g2 where r2: "(if long then randint 1000 8000 g1 else randint 50 800 g1) = (d, g2)"
      by (cases "if long then randint 1000 8000 g1 else randint 50 800 g1")
    obtain m g3 where r3: "(if d > 1000 then (''Plane'', g2)
      else if d > 300 then choice [''Plane'', ''Train'', ''Car''] g2
      else choice [''Train'', ''Bus'', ''Car''] g2) = (m, g3)"
      by (cases "if d > 1000 then (''Plane'', g2)
      else if d > 300 then choice [''Plane'', ''Train'', ''Car''] g2
      else choice [''Train'', ''Bus'', ''Car''] g2")
    have m: "m \<noteq> ''Any''" using sampled_mode_not_Any [OF r3] by auto
    from assms True show ?thesis
      unfolding recommend_transportation_def pm_def [symmetric] Let_def
      using r1 r2 r3 m
      by (auto split: sum.splits prod.splits
               dest: get_transportation_by_mode_error transport_result_error)
  qed
qed

lemma get_transportation_by_mode_absent:
  "mode \<noteq> ''Any'' \<Longrightarrow> mode \<notin> tm_mode ` set (transportation_df cat) \<Longrightarrow>
     get_transportation_by_mode cat mode g = Inl IndexError"
proof -
  assume a: "mode \<noteq> ''Any''" "mode \<notin> tm_mode ` set (transportation_df cat)"
  then have "filter (\<lambda>t. tm_mode t = mode) (transportation_df cat) = []"
    by (auto simp: filter_empty_conv)
  with a show ?thesis by (simp add: get_transportation_by_mode_def iloc0_def)
qed

lemma get_transportation_by_mode_found:
  assumes "mode \<noteq> ''Any''" "mode \<in> tm_mode ` set (transportation_df cat)"
  shows "\<exists>t. get_transportation_by_mode cat mode g = Inr (t, g)
             \<and> t \<in> set (transportation_df cat) \<and> tm_mode t = mode"
proof -
  from assms(2) have "filter (\<lambda>t. tm_mode t = mode) (transportation_df cat) \<noteq> []"
    by (auto simp: filter_empty_conv)
  then obtain t ts where f: "filter (\<lambda>t. tm_mode t = mode) (transportation_df cat) = t # ts"
    by (cases "filter (\<lambda>t. tm_mode t = mode) (transportation_df cat)") auto
  then have "t \<in> set (filter (\<lambda>t. tm_mode t = mode) (transportation_df cat))" by simp
  then have "t \<in> set (transportation_df cat) \<and> tm_mode t = mode" by simp
  moreover have "get_transportation_by_mode cat mode g = Inr (t, g)"
    using assms(1) f by (simp add: get_transportation_by_mode_def iloc0_def)
  ultimately show ?thesis by blast
qed

lemma transport_result_ok:
  "speed_km_h t \<noteq> 0 \<Longrightarrow>
     \<exists>r. transport_result p t d = Inr r \<and> tc_mode r = tm_mode t \<and> distance_km r = d
         \<and> tc_cost r = of_int d * typical_cost_per_km t
         \<and> travel_time_hours r = of_int d / speed_km_h t
         \<and> tc_details r = ''From '' @ p_origin p @ '' to '' @ p_destination p @ '' via '' @ tm_mode t"
  by (simp add: transport_result_def Let_def)

lemma recommend_transportation_named:
  assumes speeds: "\<forall>t \<in> set (transportation_df cat). speed_km_h t \<noteq> 0"
    and m: "p_transportation p = Some m" "m \<noteq> ''Any''" "m \<in> tm_mode ` set (transportation_df cat)"
  shows "\<exists>r g'. recommend_transportation cat p g = Inr (r, g') \<and> tc_mode r = m
           \<and> complete_choice cat p r"
proof -
  obtain t where t: "get_transportation_by_mode cat m g = Inr (t, g)"
      "t \<in> set (transportation_df cat)" "tm_mode t = m"
    using get_transportation_by_mode_found [OF m(2,3)] by blast
  obtain d g2 where d: "(if m = ''Plane'' then randint 500 5000 g
                    else if m \<in> set [''Train'', ''Bus'', ''Car'']
                    then randint 50 800 g
                    else randint 50 2000 g) = (d, g2)"
    by (cases "if m = ''Plane'' then randint 500 5000 g
                    else if m \<in> set [''Train'', ''Bus'', ''Car'']
                    then randint 50 800 g
                    else randint 50 2000 g")
  from speeds t(2) have "speed_km_h t \<noteq> 0" by blast
  from transport_result_ok [OF this, of p d] obtain r where r:
    "transport_result p t d = Inr r" "tc_mode r = tm_mode t" "distance_km r = d"
    "tc_cost r = of_int d * typical_cost_per_km t"
    "travel_time_hours r = of_int d / speed_km_h t"
    "tc_details r = ''From '' @ p_origin p @ '' to '' @ p_destination p @ '' via '' @ tm_mode t"
    by blast
  have "recommend_transportation cat p g = Inr (r, g2)"
    unfolding recommend_transportation_def Let_def using m(1,2) t(1) d r(1)
    by (auto split: if_splits)
  moreover have "complete_choice cat p r"
    unfolding complete_choice_def using t(2) r by auto
  ultimately show ?thesis using r(2) t(3) by auto
qed

lemma recommend_transportation_any:
  assumes speeds: "\<forall>t \<in> set (transportation_df cat). speed_km_h t \<noteq> 0"
    and m: "p_transportation p = None \<or> p_transportation p = Some ''Any''"
    and modes: "{''Plane'', ''Train'', ''Bus'', ''Car''} \<subseteq> tm_mode ` set (transportation_df cat)"
  shows "\<exists>r g'. recommend_transportation cat p g = Inr (r, g') \<and> complete_choice cat p r"
proof -
  have pm: "(case p_transportation p of None \<Rightarrow> ''Any'' | Some m \<Rightarrow> m) = ''Any''"
    using m by auto
  obtain long g1 where r1: "random_lt_07 g = (long, g1)" by (cases "random_lt_07 g")
  obtain d g2 where r2: "(if long then randint 1000 8000 g1 else randint 50 800 g1) = (d, g2)"
    by (cases "if long then randint 1000 8000 g1 else randint 50 800 g1")
  obtain rm g3 where r3: "(if d > 1000 then (''Plane'', g2)
      else if d > 300 then choice [''Plane'', ''Train'', ''Car''] g2
      else choice [''Train'', ''Bus'', ''Car''] g2) = (rm, g3)"
    by (cases "if d > 1000 then (''Plane'', g2)
      else if d > 300 then choice [''Plane'', ''Train'', ''Car''] g2
      else choice [''Train'', ''Bus'', ''Car''] g2")
  have rm: "rm \<in> {''Plane'', ''Train'', ''Bus'', ''Car''}" by (rule sampled_mode_not_Any [OF r3])
  then have "rm \<noteq> ''Any''" "rm \<in> tm_mode ` set (transportation_df cat)"
    using modes by auto
  from get_transportation_by_mode_found [OF this, of g3] obtain t where
    t: "get_transportation_by_mode cat rm g3 = Inr (t, g3)"
      "t \<in> set (transportation_df cat)" "tm_mode t = rm" by blast
  from speeds t(2) have "speed_km_h t \<noteq> 0" by blast
  from transport_result_ok [OF this, of p d] obtain r where r:
    "transport_result p t d = Inr r" "tc_mode r = tm_mode t" "distance_km r = d"
    "tc_cost r = of_int d * typical_cost_per_km t"
    "travel_time_hours r = of_int d / speed_km_h t"
    "tc_details r = ''From '' @ p_origin p @ '' to '' @ p_destination p @ '' via '' @ tm_mode t"
    by blast
  have "recommend_transportation cat p g = Inr (r, g3)"
    unfolding recommend_transportation_def Let_def pm using r1 r2 r3 t(1) r(1) by simp
  moreover have "complete_choice cat p r"
    unfolding complete_choice_def using t(2) r by auto
  ultimately show ?thesis by auto
qed

lemma recommend_transportation_absent:
  assumes "p_transportation p = Some m" "m \<noteq> ''Any''" "m \<notin> tm_mode ` set (transportation_df cat)"
  shows "recommend_transportation cat p g = Inl IndexError"
  unfolding recommend_transportation_def Let_def
  using assms get_transportation_by_mode_absent [OF assms(2,3), of g] by simp

text \<open>
  Claim C7, amended. \<open>recommend_transportation\<close> does fail: when the preferences name
  a mode that the table does not have, the lookup raises IndexError and no mode is
  sampled in its place. When they name a mode of the table, or ask for "Any" (or leave
  the key out) and the table has Plane, Train, Bus and Car, it returns a record with the
  mode, the distance, the cost, the travel time and the details string. (Speeds are not
  zero.)
\<close>

theorem recommend_transportation_outcome:
  assumes speeds: "\<forall>t \<in> set (transportation_df cat). speed_km_h t \<noteq> 0"
  shows "(p_transportation p = Some m \<and> m \<noteq> ''Any''
            \<and> m \<notin> tm_mode ` set (transportation_df cat)
          \<longrightarrow> recommend_transportation cat p g = Inl IndexError)
       \<and> (p_transportation p = Some m \<and> m \<noteq> ''Any''
            \<and> m \<in> tm_mode ` set (transportation_df cat)
          \<longrightarrow> (\<exists>r g'. recommend_transportation cat p g = Inr (r, g') \<and> tc_mode r = m
                  \<and> complete_choice cat p r))
       \<and> ((p_transportation p = None \<or> p_transportation p = Some ''Any'')
            \<and> {''Plane'', ''Train'', ''Bus'', ''Car''} \<subseteq> tm_mode ` set (transportation_df cat)
          \<longrightarrow> (\<exists>r g'. recommend_transportation cat p g = Inr (r, g')
                  \<and> complete_choice cat p r))"
  using recommend_transportation_absent [of p m cat g]
        recommend_transportation_named [OF speeds, of p m g]
        recommend_transportation_any [OF speeds, of p g]
  by blast

theorem recommend_transportation_outcome_witness:
  "list_all (\<lambda>t. speed_km_h t \<noteq> 0) (transportation_df paris_catalog)
   \<and> recommend_transportation paris_catalog helicopter_preferences [] = Inl IndexError
   \<and> \<not> isl (recommend_transportation paris_catalog scenario_preferences [])
   \<and> tc_mode (fst (projr (recommend_transportation paris_catalog scenario_preferences []))) = ''Plane''
   \<and> \<not> isl (recommend_transportation paris_catalog
               (scenario_preferences \<lparr> p_transportation := Some ''Any'' \<rparr>) [])"
proof -
  have speeds: "\<forall>t \<in> set (transportation_df paris_catalog). speed_km_h t \<noteq> 0"
    by (simp add: paris_catalog_def transportation_data_def)
  have modes: "tm_mode ` set (transportation_df paris_catalog)
                 = {''Plane'', ''Train'', ''Bus'', ''Car'', ''Ferry''}"
    by (simp add: paris_catalog_def transportation_data_def)
  have a: "recommend_transportation paris_catalog helicopter_preferences [] = Inl IndexError"
    using recommend_transportation_outcome [OF speeds, of helicopter_preferences "''Helicopter''" "[]"]
    by (simp add: modes helicopter_preferences_def)
  have b: "\<exists>r g'. recommend_transportation paris_catalog scenario_preferences [] = Inr (r, g')
             \<and> tc_mode r = ''Plane''"
    using recommend_transportation_outcome [OF speeds, of scenario_preferences "''Plane''" "[]"]
    by (auto simp: modes scenario_preferences_def)
  have c: "\<exists>r g'. recommend_transportation paris_catalog
               (scenario_preferences \<lparr> p_transportation := Some ''Any'' \<rparr>) [] = Inr (r, g')"
    using recommend_transportation_outcome [OF speeds,
            of "scenario_preferences \<lparr> p_transportation := Some ''Any'' \<rparr>" "''Any''" "[]"]
    by (auto simp: modes)
  from speeds have "list_all (\<lambda>t. speed_km_h t \<noteq> 0) (transportation_df paris_catalog)"
    by (simp add: list_all_iff)
  with a b c show ?thesis by auto
qed

theorem recommend_transportation_absent_mode_counterexample:
  "recommend_transportation paris_catalog helicopter_preferences [] = Inl IndexError"
  by code_simp

section \<open>recommend_accommodation\<close>

lemma hd_sort_key_min:
  assumes "xs \<noteq> []"
  shows "hd (sort_key f xs) \<in> set xs \<and> (\<forall>y \<in> set xs. f (hd (sort_key f xs)) \<le> f y)"
proof -
  have ne: "sort_key f xs \<noteq> []" using assms by (metis length_0_conv length_sort)
  then obtain z zs where z: "sort_key f xs = z # zs" by (cases "sort_key f xs") auto
  have "sorted (map f (z # zs))" using sorted_sort_key [of f xs] z by simp
  then have le: "\<forall>y \<in> set (z # zs). f z \<le> f y" by auto
  have "set (z # zs) = set xs" using z by (metis set_sort)
  with le z show ?thesis by auto
qed

lemma hd_sort_reverse_max:
  assumes "xs \<noteq> []"
  shows "hd (sort_reverse f xs) \<in> set xs \<and> (\<forall>y \<in> set xs. f y \<le> f (hd (sort_reverse f xs)))"
proof -
  have ne: "sort_reverse f xs \<noteq> []"
    using assms length_sort_reverse [of f xs] by (metis length_0_conv)
  then obtain z zs where z: "sort_reverse f xs = z # zs" by (cases "sort_reverse f xs") auto
  have "sorted_wrt (\<lambda>a b. f b \<le> f a) (z # zs)" using sorted_wrt_sort_reverse [of f xs] z by simp
  then have le: "\<forall>y \<in> set (z # zs). f y \<le> f z" by auto
  have "set (z # zs) = set xs" using z set_sort_reverse [of f xs] by simp
  with le z show ?thesis by auto
qed




section \<open>generate_itinerary: a duration of zero\<close>

lemma recommend_accommodation_duration_0:
  "p_duration p = 0 \<Longrightarrow>
     recommend_accommodation cat p d = Inl ZeroDivisionError
     \<or> recommend_accommodation cat p d = Inr (generic_accommodation p)"
  by (simp add: recommend_accommodation_def Let_def)

text \<open>
  Claim C6, amended. The core has no check of the duration. With \<open>duration = 0\<close>,
  \<open>generate_itinerary\<close> returns no itinerary: it ends with the IndexError of a failed
  lookup, or with the ZeroDivisionError of the first division by the duration; when the
  destination is found and the transportation is chosen, it is the ZeroDivisionError.
\<close>

theorem generate_itinerary_duration_0:
  "p_duration p = 0 \<Longrightarrow>
     (generate_itinerary cat p g = Inl IndexError \<or> generate_itinerary cat p g = Inl ZeroDivisionError)
     \<and> (\<forall>d t g1. get_destination_by_name cat (p_destination p) = Inr d
            \<longrightarrow> recommend_transportation cat p g = Inr (t, g1)
            \<longrightarrow> generate_itinerary cat p g = Inl ZeroDivisionError)"
proof -
  assume d0: "p_duration p = 0"
  have lookup: "get_destination_by_name cat (p_destination p) = Inl e \<Longrightarrow> e = IndexError" for e
    by (auto simp: get_destination_by_name_def iloc0_def split: list.splits)
  have tail: "generate_itinerary cat p g = Inl ZeroDivisionError"
    if "get_destination_by_name cat (p_destination p) = Inr d"
       "recommend_transportation cat p g = Inr (t, g1)" for d t g1
    using that d0 recommend_accommodation_duration_0 [OF d0, of cat "dest_id d"]
    by (auto simp: generate_itinerary_def Let_def generic_accommodation_def)
  have "generate_itinerary cat p g = Inl IndexError \<or> generate_itinerary cat p g = Inl ZeroDivisionError"
  proof (cases "get_destination_by_name cat (p_destination p)")
    case (Inl e)
    then show ?thesis using lookup [OF Inl] by (simp add: generate_itinerary_def)
  next
    case (Inr d)
    show ?thesis
    proof (cases "recommend_transportation cat p g")
      case (Inl e)
      then show ?thesis using Inr recommend_transportation_error [OF Inl]
        by (auto simp: generate_itinerary_def)
    next
      case (Inr tg)
      then show ?thesis using tail [OF \<open>get_destination_by_name cat (p_destination p) = Inr d\<close>, of "fst tg" "snd tg"]
        by simp
    qed
  qed
  with tail show ?thesis by blast
qed

theorem generate_itinerary_duration_0_witness:
  "p_duration zero_duration_preferences = 0
   \<and> generate_itinerary paris_catalog zero_duration_preferences [] = Inl ZeroDivisionError"
proof -
  have d0: "p_duration zero_duration_preferences = 0"
    by (simp add: zero_duration_preferences_def)
  have dest: "get_destination_by_name paris_catalog (p_destination zero_duration_preferences)
                = Inr paris"
    by code_simp
  have "\<not> isl (recommend_transportation paris_catalog zero_duration_preferences [])"
    by code_simp
  then obtain t g1 where
    tr: "recommend_transportation paris_catalog zero_duration_preferences [] = Inr (t, g1)"
    by (cases "recommend_transportation paris_catalog zero_duration_preferences []") auto
  show ?thesis
    using d0 generate_itinerary_duration_0 [OF d0, of paris_catalog "[]"] dest tr by blast
qed

text \<open>
  The claim as stated fails: the request with no day is not rejected as invalid.
  \<open>generate_itinerary\<close> ends with a ZeroDivisionError, raised inside
  \<open>recommend_accommodation\<close> after the transportation has been chosen; and for a
  destination without accommodation \<open>recommend_accommodation\<close> accepts the request and
  returns the generic accommodation, at a total cost of zero.
\<close>

theorem zero_duration_counterexample:
  "generate_itinerary paris_catalog zero_duration_preferences [] = Inl ZeroDivisionError
   \<and> recommend_accommodation paris_catalog zero_duration_preferences 99
       = Inr (generic_accommodation zero_duration_preferences)
   \<and> acc_total_cost (generic_accommodation zero_duration_preferences) = Some 0"
  by code_simp

section \<open>recommend_daily_plan\<close>




lemma pick_activity_empty: "pick_activity [] filler g = (None, filler, g)"
  by (simp add: pick_activity_def)

lemma pick_activity_chosen:
  "pick_activity candidates filler g = (chosen, plan, g') \<Longrightarrow>
     (chosen = None) = (candidates = [])"
  by (auto simp: pick_activity_def split: if_splits prod.splits)



lemma recommend_daily_plan_unbound:
  assumes dest: "get_destination_by_id cat d = Inr dest"
    and day: "day \<noteq> 1" "day \<noteq> p_duration p"
    and empty: "recommend_activities cat p d (period_constraints ''morning'' (daily_budget * (3 / 10))) = []"
  shows "recommend_daily_plan cat p d day daily_budget g = Inl UnboundLocalError"
  using dest day empty
  by (simp add: recommend_daily_plan_def Let_def pick_activity_empty day_title_def
           split: prod.splits)

lemma food_morning_empty:
  "recommend_activities paris_catalog food_preferences 1 (period_constraints ''morning'' cap) = []"
  by code_simp

text \<open>
  Claim C5 does not hold of the code. For Paris and the single interest "Food &
  Culinary" no activity is suitable for the morning, so the morning slot is the filler
  and \<open>morning_activity\<close> is never assigned. On day 2 of 7 the title is computed from
  \<open>morning_activity\<close>, and the call ends with UnboundLocalError instead of a plan,
  whatever the daily budget and the random draws.
\<close>

theorem recommend_daily_plan_middle_day_fails:
  "recommend_daily_plan paris_catalog food_preferences 1 2 daily_budget g = Inl UnboundLocalError"
proof -
  have dest: "get_destination_by_id paris_catalog 1 = Inr paris"
    by (simp add: get_destination_by_id_def paris_catalog_def paris_def iloc0_def)
  have d1: "(2::int) \<noteq> 1" by simp
  have d2: "2 \<noteq> p_duration food_preferences"
    by (simp add: food_preferences_def scenario_preferences_def)
  show ?thesis
    by (rule recommend_daily_plan_unbound [OF dest d1 d2 food_morning_empty])
qed

section \<open>generate_itinerary: the daily plans\<close>

text \<open>
  What holds of the loop: when it ends without an exception there is one plan for each
  day, each made by \<open>recommend_daily_plan\<close> for its day, in the order of the days.
\<close>

lemma daily_plans_length:
  "daily_plans cat p d b days g = Inr (plans, g') \<Longrightarrow> length plans = length days"
  by (induction days arbitrary: g plans g') (auto split: sum.splits prod.splits)

lemma daily_plans_in_order:
  "daily_plans cat p d b days g = Inr (plans, g') \<Longrightarrow>
     list_all2 (\<lambda>day plan. \<exists>g1 g2. recommend_daily_plan cat p d day b g1 = Inr (plan, g2))
       days plans"
  by (induction days arbitrary: g plans g') (auto split: sum.splits prod.splits)

lemma generate_itinerary_length:
  "generate_itinerary cat p g = Inr it \<Longrightarrow> length (it_daily_plan it) = nat (p_duration p)"
  by (auto simp: generate_itinerary_def Let_def dest!: daily_plans_length
           split: sum.splits option.splits if_splits prod.splits)

lemma recommend_daily_plan_first_day:
  "get_destination_by_id cat d = Inr dest \<Longrightarrow>
     \<exists>plan g'. recommend_daily_plan cat p d 1 b g = Inr (plan, g')"
  by (auto simp: recommend_daily_plan_def Let_def day_title_def split: prod.splits)

lemma daily_plans_second_day:
  assumes "get_destination_by_id cat d = Inr dest"
    and "\<And>g. recommend_daily_plan cat p d 2 b g = Inl e"
  shows "daily_plans cat p d b (1 # 2 # days) g = Inl e"
proof -
  obtain plan g' where "recommend_daily_plan cat p d 1 b g = Inr (plan, g')"
    using recommend_daily_plan_first_day [OF assms(1)] by blast
  then show ?thesis using assms(2) [of g'] by simp
qed

text \<open>
  Claim C2 does not hold of the code. The request of the scenario, with the single
  interest "Food & Culinary", is valid: seven days, a budget of 2000, a destination, a
  mode and an accommodation type of the catalog. \<open>generate_itinerary\<close> returns no
  itinerary for it: the plan of day 2 ends with UnboundLocalError, whatever the random
  draws.
\<close>

theorem generate_itinerary_valid_request_fails:
  "generate_itinerary paris_catalog food_preferences g = Inl UnboundLocalError"
proof -
  have dest: "get_destination_by_name paris_catalog (p_destination food_preferences) = Inr paris"
    by code_simp
  have speeds: "\<forall>t \<in> set (transportation_df paris_catalog). speed_km_h t \<noteq> 0"
    by (simp add: paris_catalog_def transportation_data_def)
  have "p_transportation food_preferences = Some ''Plane''"
    by (simp add: food_preferences_def scenario_preferences_def)
  moreover have "''Plane'' \<in> tm_mode ` set (transportation_df paris_catalog)"
    by (simp add: paris_catalog_def transportation_data_def)
  ultimately obtain t g1 where
    tr: "recommend_transportation paris_catalog food_preferences g = Inr (t, g1)"
    using recommend_transportation_named [OF speeds, of food_preferences "''Plane''" g] by auto
  have acc1: "\<not> isl (recommend_accommodation paris_catalog food_preferences (dest_id paris))"
    by code_simp
  have acc2: "acc_total_cost (projr (recommend_accommodation paris_catalog food_preferences
                 (dest_id paris))) = Some 630"
    by code_simp
  from acc1 obtain a where
    acc: "recommend_accommodation paris_catalog food_preferences (dest_id paris) = Inr a"
    by (cases "recommend_accommodation paris_catalog food_preferences (dest_id paris)") auto
  with acc2 have cost: "acc_total_cost a = Some 630" by simp
  have dur: "p_duration food_preferences = 7"
    by (simp add: food_preferences_def scenario_preferences_def)
  have id: "dest_id paris = 1" by (simp add: paris_def)
  have byid: "get_destination_by_id paris_catalog 1 = Inr paris"
    by (simp add: get_destination_by_id_def paris_catalog_def paris_def iloc0_def)
  have days: "[1..7::int] = 1 # 2 # [3..7]"
    by (simp add: upto_rec1)
  have day2: "recommend_daily_plan paris_catalog food_preferences 1 2 b g' = Inl UnboundLocalError"
    for b g'
    by (rule recommend_daily_plan_unbound [OF byid _ _ food_morning_empty]) (simp_all add: dur)
  have loop: "daily_plans paris_catalog food_preferences 1 b [1..7] g1 = Inl UnboundLocalError" for b
    unfolding days by (rule daily_plans_second_day [OF byid day2])
  show ?thesis
    unfolding generate_itinerary_def using dest tr acc cost
    by (simp add: Let_def dur id loop)
qed

section \<open>recommend_accommodation on the store of dictionaries\<close>

lemma to_dict_records_frame:
  "to_dict_records rows s = (as, s') \<Longrightarrow>
     st_catalog s' = st_catalog s \<and> st_heap s' = st_heap s @ rows
     \<and> as = [length (st_heap s) ..< length (st_heap s) + length rows]"
  by (auto simp: to_dict_records_def)

lemma to_dict_records_objects:
  "to_dict_records rows s = (as, s') \<Longrightarrow> map (\<lambda>a. st_heap s' ! a) as = rows"
  by (auto simp: to_dict_records_def intro!: nth_equalityI)

lemma to_dict_records_length: "to_dict_records rows s = (as, s') \<Longrightarrow> length as = length rows"
  by (auto simp: to_dict_records_def)

lemma set_total_cost_frame:
  "n \<le> a \<Longrightarrow> st_catalog (set_total_cost a v s) = st_catalog s
     \<and> take n (st_heap (set_total_cost a v s)) = take n (st_heap s)
     \<and> length (st_heap (set_total_cost a v s)) = length (st_heap s)"
  by (simp add: set_total_cost_def take_update_cancel)

lemma set_total_cost_object:
  "a < length (st_heap s) \<Longrightarrow>
     st_heap (set_total_cost a v s) ! a = (st_heap s ! a) \<lparr> acc_total_cost := Some v \<rparr>"
  by (simp add: set_total_cost_def)

text \<open>The dictionaries that the two queries of a call hand out are all new.\<close>

lemma queried_accommodations:
  assumes q1: "to_dict_records rows1 s = (typed, s1)"
    and q2: "(if typed = [] then to_dict_records rows2 s1 else (typed, s1)) = (accs, s2)"
  shows "st_catalog s2 = st_catalog s"
    and "take (length (st_heap s)) (st_heap s2) = st_heap s"
    and "\<forall>a \<in> set accs. length (st_heap s) \<le> a \<and> a < length (st_heap s2)"
    and "map (\<lambda>a. st_heap s2 ! a) accs = (if rows1 = [] then rows2 else rows1)"
proof -
  note f1 = to_dict_records_frame [OF q1] and o1 = to_dict_records_objects [OF q1]
  show "st_catalog s2 = st_catalog s"
    using f1 q2 by (auto split: if_splits dest: to_dict_records_frame)
  show "take (length (st_heap s)) (st_heap s2) = st_heap s"
    using f1 q2 by (auto split: if_splits dest: to_dict_records_frame)
  show "\<forall>a \<in> set accs. length (st_heap s) \<le> a \<and> a < length (st_heap s2)"
    using f1 q2 by (auto split: if_splits dest!: to_dict_records_frame)
  show "map (\<lambda>a. st_heap s2 ! a) accs = (if rows1 = [] then rows2 else rows1)"
  proof (cases "typed = []")
    case True
    with to_dict_records_length [OF q1] have "rows1 = []" by simp
    moreover from True q2 have "to_dict_records rows2 s1 = (accs, s2)" by simp
    ultimately show ?thesis using to_dict_records_objects by simp
  next
    case False
    with to_dict_records_length [OF q1] have "rows1 \<noteq> []" by auto
    moreover from False q2 have "accs = typed" "s2 = s1" by auto
    ultimately show ?thesis using o1 by simp
  qed
qed

lemma hd_sort_key_member: "xs \<noteq> [] \<Longrightarrow> hd (sort_key f xs) \<in> set xs"
  using hd_sort_key_min [of xs f] by blast

lemma hd_sort_reverse_member: "xs \<noteq> [] \<Longrightarrow> hd (sort_reverse f xs) \<in> set xs"
  using hd_sort_reverse_max [of xs f] by blast

text \<open>
  Claim C9. Whatever a call of \<open>recommend_accommodation\<close> returns, the catalog is the
  same afterwards and so is every dictionary that existed before the call; the
  dictionary returned is one made during the call, and it carries
  \<open>total_cost = cost_per_night * duration\<close>.
\<close>

theorem recommend_accommodation_leaves_catalog:
  assumes call: "recommend_accommodation_obj p d s = (r, s')"
  shows "st_catalog s' = st_catalog s
       \<and> take (length (st_heap s)) (st_heap s') = st_heap s
       \<and> (case r of
            Inl e \<Rightarrow> True
          | Inr a \<Rightarrow>
              length (st_heap s) \<le> a \<and> a < length (st_heap s')
              \<and> acc_total_cost (st_heap s' ! a)
                  = Some (cost_per_night (st_heap s' ! a) * of_int (p_duration p)))"
proof -
  define pt where "pt = (case p_accommodation p of None \<Rightarrow> ''Any'' | Some t \<Rightarrow> t)"
  obtain typed s1 where q1: "to_dict_records
      (get_accommodations_by_destination_and_type (st_catalog s) d pt) s = (typed, s1)"
    by (cases "to_dict_records (get_accommodations_by_destination_and_type (st_catalog s) d pt) s")
  obtain accs s2 where q2: "(if typed = []
      then to_dict_records (get_accommodations_by_destination (st_catalog s1) d) s1
      else (typed, s1)) = (accs, s2)"
    by (cases "if typed = []
      then to_dict_records (get_accommodations_by_destination (st_catalog s1) d) s1
      else (typed, s1)")
  note q = queried_accommodations [OF q1 q2]
  let ?obj = "\<lambda>a. st_heap s2 ! a"
  let ?aff = "filter (\<lambda>a. cost_per_night (?obj a) \<le> accommodation_budget p) accs"
  let ?sel = "if ?aff = [] then hd (sort_key (\<lambda>a. cost_per_night (?obj a)) accs)
              else hd (sort_reverse (\<lambda>a. (rating (?obj a), - cost_per_night (?obj a))) ?aff)"
  have unfolded: "recommend_accommodation_obj p d s =
      (if accs = [] then (case new_dict (generic_accommodation p) s2 of (a, s3) \<Rightarrow> (Inr a, s3))
       else if p_duration p = 0 then (Inl ZeroDivisionError, s2)
       else (Inr ?sel,
             set_total_cost ?sel (cost_per_night (?obj ?sel) * of_int (p_duration p)) s2))"
    unfolding recommend_accommodation_obj_def pt_def [symmetric] q1 Let_def
    using q2 by simp
  show ?thesis
  proof (cases "accs = []")
    case True
    with call unfolded have "r = Inr (length (st_heap s2))"
        "s' = s2 \<lparr> st_heap := st_heap s2 @ [generic_accommodation p] \<rparr>"
      by (auto simp: new_dict_def)
    moreover have "length (st_heap s) \<le> length (st_heap s2)"
      using q(2) by (metis length_take min.cobounded1)
    ultimately show ?thesis using q(1,2)
      by (simp add: generic_accommodation_def)
  next
    case False
    show ?thesis
    proof (cases "p_duration p = 0")
      case True
      with call unfolded False have "r = Inl ZeroDivisionError" "s' = s2" by auto
      then show ?thesis using q(1,2) by simp
    next
      case dur: False
      have sel: "?sel \<in> set accs"
      proof (cases "?aff = []")
        case True
        then show ?thesis using hd_sort_key_member [OF False] by simp
      next
        case aff: False
        have "hd (sort_reverse (\<lambda>a. (rating (?obj a), - cost_per_night (?obj a))) ?aff) \<in> set ?aff"
          by (rule hd_sort_reverse_member [OF aff])
        then show ?thesis using aff by simp
      qed
      with q(3) have bounds: "length (st_heap s) \<le> ?sel" "?sel < length (st_heap s2)" by auto
      from call unfolded False dur have res: "r = Inr ?sel"
          "s' = set_total_cost ?sel (cost_per_night (?obj ?sel) * of_int (p_duration p)) s2"
        by auto
      have "st_catalog s' = st_catalog s"
        using res(2) q(1) set_total_cost_frame [OF bounds(1)] by simp
      moreover have "take (length (st_heap s)) (st_heap s') = st_heap s"
        using res(2) q(2) set_total_cost_frame [OF bounds(1)] by simp
      moreover have "length (st_heap s') = length (st_heap s2)"
        using res(2) set_total_cost_frame [OF bounds(1)] by simp
      moreover have "st_heap s' ! ?sel = (?obj ?sel)
          \<lparr> acc_total_cost := Some (cost_per_night (?obj ?sel) * of_int (p_duration p)) \<rparr>"
        unfolding res(2) by (rule set_total_cost_object [OF bounds(2)])
      ultimately show ?thesis using res(1) bounds by simp
    qed
  qed
qed

text \<open>
  The dictionary returned on the store is the value that the function on values
  returns, so the two descriptions of \<open>recommend_accommodation\<close> agree.
\<close>

lemma insort_key_map:
  "insort_key f (g x) (map g xs) = map g (insort_key (\<lambda>a. f (g a)) x xs)"
  by (induction xs) simp_all

lemma sort_key_map: "sort_key f (map g xs) = map g (sort_key (\<lambda>a. f (g a)) xs)"
  by (induction xs) (simp_all add: insort_key_map)

lemma sort_reverse_map: "sort_reverse f (map g xs) = map g (sort_reverse (\<lambda>a. f (g a)) xs)"
  by (simp add: sort_reverse_def rev_map sort_key_map)

lemma filter_map_obj: "filter P (map g xs) = map g (filter (\<lambda>a. P (g a)) xs)"
  by (simp add: filter_map comp_def)

lemma recommend_accommodation_obj_value:
  assumes call: "recommend_accommodation_obj p d s = (r, s')"
  shows "map_sum id (\<lambda>a. st_heap s' ! a) r = recommend_accommodation (st_catalog s) p d"
proof -
  define pt where "pt = (case p_accommodation p of None \<Rightarrow> ''Any'' | Some t \<Rightarrow> t)"
  obtain typed s1 where q1: "to_dict_records
      (get_accommodations_by_destination_and_type (st_catalog s) d pt) s = (typed, s1)"
    by (cases "to_dict_records (get_accommodations_by_destination_and_type (st_catalog s) d pt) s")
  have c1: "st_catalog s1 = st_catalog s" using to_dict_records_frame [OF q1] by simp
  obtain accs s2 where q2: "(if typed = []
      then to_dict_records (get_accommodations_by_destination (st_catalog s1) d) s1
      else (typed, s1)) = (accs, s2)"
    by (cases "if typed = []
      then to_dict_records (get_accommodations_by_destination (st_catalog s1) d) s1
      else (typed, s1)")
  note q = queried_accommodations [OF q1 q2]
  let ?obj = "\<lambda>a. st_heap s2 ! a"
  let ?cands = "accommodation_candidates (st_catalog s) p d"
  have cands: "map ?obj accs = ?cands"
    using q(4) c1 by (simp add: accommodation_candidates_def pt_def Let_def)
  let ?aff = "filter (\<lambda>a. cost_per_night (?obj a) \<le> accommodation_budget p) accs"
  let ?sel = "if ?aff = [] then hd (sort_key (\<lambda>a. cost_per_night (?obj a)) accs)
              else hd (sort_reverse (\<lambda>a. (rating (?obj a), - cost_per_night (?obj a))) ?aff)"
  let ?paff = "filter (\<lambda>a. cost_per_night a \<le> accommodation_budget p) ?cands"
  let ?psel = "if ?paff = [] then hd (sort_key cost_per_night ?cands)
               else hd (sort_reverse (\<lambda>x. (rating x, - cost_per_night x)) ?paff)"
  have unfolded: "recommend_accommodation_obj p d s =
      (if accs = [] then (case new_dict (generic_accommodation p) s2 of (a, s3) \<Rightarrow> (Inr a, s3))
       else if p_duration p = 0 then (Inl ZeroDivisionError, s2)
       else (Inr ?sel,
             set_total_cost ?sel (cost_per_night (?obj ?sel) * of_int (p_duration p)) s2))"
    unfolding recommend_accommodation_obj_def pt_def [symmetric] q1 Let_def
    using q2 by simp
  have empty: "(accs = []) = (?cands = [])" using cands by (metis map_is_Nil_conv)
  show ?thesis
  proof (cases "accs = []")
    case True
    with call unfolded have "r = Inr (length (st_heap s2))"
        "s' = s2 \<lparr> st_heap := st_heap s2 @ [generic_accommodation p] \<rparr>"
      by (auto simp: new_dict_def)
    then show ?thesis using True empty by (simp add: recommend_accommodation_def)
  next
    case False
    show ?thesis
    proof (cases "p_duration p = 0")
      case True
      with call unfolded False have "r = Inl ZeroDivisionError" by auto
      then show ?thesis using True False empty by (simp add: recommend_accommodation_def)
    next
      case dur: False
      have aff: "map ?obj ?aff = ?paff"
        unfolding cands [symmetric] by (simp add: filter_map_obj)
      then have aff_empty: "(?aff = []) = (?paff = [])" by (metis map_is_Nil_conv)
      have sel: "?obj ?sel = ?psel"
      proof (cases "?aff = []")
        case True
        have "sort_key (\<lambda>a. cost_per_night (?obj a)) accs \<noteq> []"
          using False by (metis length_0_conv length_sort)
        then have "?obj (hd (sort_key (\<lambda>a. cost_per_night (?obj a)) accs))
            = hd (map ?obj (sort_key (\<lambda>a. cost_per_night (?obj a)) accs))"
          by (simp add: hd_map)
        also have "\<dots> = hd (sort_key cost_per_night ?cands)"
          unfolding cands [symmetric] by (simp add: sort_key_map)
        finally show ?thesis using True aff_empty by simp
      next
        case ne: False
        let ?k = "\<lambda>a. (rating (?obj a), - cost_per_night (?obj a))"
        have "sort_reverse ?k ?aff \<noteq> []"
          using ne length_sort_reverse [of ?k ?aff] by (metis length_0_conv)
        then have "?obj (hd (sort_reverse ?k ?aff)) = hd (map ?obj (sort_reverse ?k ?aff))"
          by (simp add: hd_map)
        also have "\<dots> = hd (sort_reverse (\<lambda>x. (rating x, - cost_per_night x)) ?paff)"
          unfolding aff [symmetric] by (simp add: sort_reverse_map)
        finally show ?thesis using ne aff_empty by simp
      qed
      have mem: "?sel \<in> set accs"
      proof (cases "?aff = []")
        case True
        then show ?thesis using hd_sort_key_member [OF False] by simp
      next
        case ne: False
        have "hd (sort_reverse (\<lambda>a. (rating (?obj a), - cost_per_night (?obj a))) ?aff) \<in> set ?aff"
          by (rule hd_sort_reverse_member [OF ne])
        then show ?thesis using ne by simp
      qed
      with q(3) have bound: "?sel < length (st_heap s2)" by auto
      from call unfolded False dur have res: "r = Inr ?sel"
          "s' = set_total_cost ?sel (cost_per_night (?obj ?sel) * of_int (p_duration p)) s2"
        by auto
      have "st_heap s' ! ?sel = (?obj ?sel)
          \<lparr> acc_total_cost := Some (cost_per_night (?obj ?sel) * of_int (p_duration p)) \<rparr>"
        unfolding res(2) by (rule set_total_cost_object [OF bound])
      then have "map_sum id (\<lambda>a. st_heap s' ! a) r
          = Inr (?psel \<lparr> acc_total_cost := Some (cost_per_night ?psel * of_int (p_duration p)) \<rparr>)"
        unfolding res(1) sel [symmetric] by simp
      also have "\<dots> = recommend_accommodation (st_catalog s) p d"
        using False dur empty by (simp add: recommend_accommodation_def Let_def)
      finally show ?thesis .
    qed
  qed
qed

theorem recommend_accommodation_leaves_catalog_witness:
  "st_catalog (snd (recommend_accommodation_obj scenario_preferences 1 initial_state))
     = st_catalog initial_state
   \<and> take (length (st_heap initial_state))
        (st_heap (snd (recommend_accommodation_obj scenario_preferences 1 initial_state)))
     = st_heap initial_state
   \<and> \<not> isl (fst (recommend_accommodation_obj scenario_preferences 1 initial_state))
   \<and> map acc_total_cost (accommodations_df (st_catalog
        (snd (recommend_accommodation_obj scenario_preferences 1 initial_state))))
     = [None, None, None, None, None, None]"
proof -
  have r: "\<not> isl (fst (recommend_accommodation_obj scenario_preferences 1 initial_state))"
    by code_simp
  have rows: "map acc_total_cost (accommodations_df (st_catalog initial_state))
     = [None, None, None, None, None, None]"
    by code_simp
  have call: "recommend_accommodation_obj scenario_preferences 1 initial_state
     = (fst (recommend_accommodation_obj scenario_preferences 1 initial_state),
        snd (recommend_accommodation_obj scenario_preferences 1 initial_state))"
    by simp
  show ?thesis
    using r rows recommend_accommodation_leaves_catalog [OF call] by simp
qed

end
